theory Spec2Isabelle
  imports Complex_Main "HOL-Library.Product_Lexorder"
begin

section \<open>Game records\<close>

text \<open>
  A game record is the JSON object of the chess.com API, read through \<^verbatim>\<open>dict.get\<close>.
  A key that is absent is \<open>None\<close>; the fields are the keys the analysed functions read
  (\<open>headers_White\<close> is \<^verbatim>\<open>game["headers"]["White"]\<close>).
  \<open>end_time\<close> is unix seconds. Python floats are modelled by the reals.
\<close>

record player =
  username :: "string option"
  result :: "string option"

record game =
  end_time :: "int option"
  white :: "player option"
  black :: "player option"
  pgn :: "string option"
  time_control :: "string option"
  headers_White :: "string option"

text \<open>\<^verbatim>\<open>game.get(side, {}).get(key)\<close>: \<open>None\<close> when the side or the key is absent.\<close>

definition side_get :: "player option \<Rightarrow> (player \<Rightarrow> string option) \<Rightarrow> string option" where
  "side_get p key = (case p of None \<Rightarrow> None | Some q \<Rightarrow> key q)"

text \<open>In the loops below \<^verbatim>\<open>if not end_time: continue\<close> is the case of an absent key and the
  case of the value 0.\<close>

text \<open>\<^verbatim>\<open>datetime.fromtimestamp\<close> depends on the time zone of the host; the functions below
  take it as the parameter \<open>clock\<close>. The local time carries the fields the code reads: the
  \<^verbatim>\<open>%Y-%m\<close> month as (year, month), the calendar date as (year, month, day), the weekday
  and the hour.\<close>

datatype weekday = Monday | Tuesday | Wednesday | Thursday | Friday | Saturday | Sunday

record local_time =
  lt_year :: int
  lt_month :: nat
  lt_day :: nat
  lt_weekday :: weekday
  lt_hour :: nat

definition month_key :: "local_time \<Rightarrow> int \<times> nat" where
  "month_key dt = (lt_year dt, lt_month dt)"

definition date_key :: "local_time \<Rightarrow> int \<times> nat \<times> nat" where
  "date_key dt = (lt_year dt, lt_month dt, lt_day dt)"

text \<open>The clock of a host running in UTC, for concrete runs: days since the epoch are
  turned into a civil date; 1970-01-01 was a Thursday.\<close>

definition weekday_of_index :: "nat \<Rightarrow> weekday" where
  "weekday_of_index i = [Monday, Tuesday, Wednesday, Thursday, Friday, Saturday, Sunday] ! (i mod 7)"

definition utc_clock :: "int \<Rightarrow> local_time" where
  "utc_clock t =
     (let days = t div 86400;
          secs = t mod 86400;
          z = days + 719468;
          era = z div 146097;
          doe = z mod 146097;
          yoe = (doe - doe div 1460 + doe div 36524 - doe div 146096) div 365;
          doy = doe - (365 * yoe + yoe div 4 - yoe div 100);
          mp = (5 * doy + 2) div 153;
          d = doy - (153 * mp + 2) div 5 + 1;
          m = (if mp < 10 then mp + 3 else mp - 9);
          y = yoe + era * 400 + (if m \<le> 2 then 1 else 0)
      in \<lparr> lt_year = y, lt_month = nat m, lt_day = nat d,
           lt_weekday = weekday_of_index (nat ((days + 3) mod 7)),
           lt_hour = nat (secs div 3600) \<rparr>)"

section \<open>The normalizers\<close>

text \<open>\<^verbatim>\<open>get_game_result\<close> of \<^verbatim>\<open>chess_stats/stats_app/utils/game_analysis.py\<close>.\<close>

definition get_game_result :: "game \<Rightarrow> string \<Rightarrow> string option" where
  "get_game_result g u =
     (let r = (if side_get (white g) username = Some u then side_get (white g) result
               else if side_get (black g) username = Some u then side_get (black g) result
               else None)
      in if r = Some ''win'' then Some ''win''
         else if r = Some ''timeout'' then Some ''timeout''
         else if r \<in> set [Some ''checkmated'', Some ''resigned'', Some ''lose'', Some ''abandoned'']
           then Some ''loss''
         else None)"

text \<open>\<^verbatim>\<open>get_game_result\<close> of \<^verbatim>\<open>archive/consecutive.py\<close>: two classes only.\<close>

definition get_game_result_consecutive :: "game \<Rightarrow> string \<Rightarrow> string option" where
  "get_game_result_consecutive g u =
     (let r = (if side_get (white g) username = Some u then side_get (white g) result
               else if side_get (black g) username = Some u then side_get (black g) result
               else None)
      in if r = Some ''win'' then Some ''win''
         else if r \<in> set [Some ''checkmated'', Some ''timeout'', Some ''resigned'', Some ''lose'',
                           Some ''abandoned'']
           then Some ''loss''
         else None)"

text \<open>\<^verbatim>\<open>get_game_result\<close> of \<^verbatim>\<open>archive/main.py\<close> and \<^verbatim>\<open>archive/daily_proba.py\<close>:
  the raw result string of the matching side.\<close>

definition get_game_result_raw :: "game \<Rightarrow> string \<Rightarrow> string option" where
  "get_game_result_raw g u =
     (if side_get (white g) username = Some u then side_get (white g) result
      else if side_get (black g) username = Some u then side_get (black g) result
      else None)"

text \<open>\<^verbatim>\<open>str.lower\<close> on ASCII letters.\<close>

definition lower_char :: "char \<Rightarrow> char" where
  "lower_char c =
     (let n = (of_char c :: nat)
      in if of_char CHR ''A'' \<le> n \<and> n \<le> of_char CHR ''Z'' then char_of (n + 32) else c)"

definition lower :: "string \<Rightarrow> string" where
  "lower s = map lower_char s"

text \<open>\<^verbatim>\<open>ChessGameAnalyzer.get_player_result\<close> of \<^verbatim>\<open>chess_analyzer.py\<close>: the player is fixed,
  matched in lower case; a missing key is the \<^verbatim>\<open>KeyError\<close> branch and gives the empty string;
  when White is someone else the result is Black's.\<close>

definition get_player_result :: "game \<Rightarrow> string" where
  "get_player_result g =
     (case white g of None \<Rightarrow> ''''
      | Some w \<Rightarrow>
          (case username w of None \<Rightarrow> ''''
           | Some n \<Rightarrow>
               if lower n = ''kalel1130''
               then (case result w of None \<Rightarrow> '''' | Some r \<Rightarrow> r)
               else (case black g of None \<Rightarrow> ''''
                     | Some b \<Rightarrow> (case result b of None \<Rightarrow> '''' | Some r \<Rightarrow> r))))"

section \<open>Overall statistics\<close>

text \<open>The counters of the loop of \<^verbatim>\<open>analyze_games\<close> (game\_analysis.py).\<close>

record tally =
  t_wins :: int
  t_losses :: int
  t_timeouts :: int

definition count_result :: "string option \<Rightarrow> tally \<Rightarrow> tally" where
  "count_result r t =
     (if r = Some ''win'' then t\<lparr>t_wins := t_wins t + 1\<rparr>
      else if r = Some ''timeout'' then t\<lparr>t_timeouts := t_timeouts t + 1, t_losses := t_losses t + 1\<rparr>
      else if r = Some ''loss'' then t\<lparr>t_losses := t_losses t + 1\<rparr>
      else t)"

fun analyze_games_loop :: "game list \<Rightarrow> string \<Rightarrow> tally \<Rightarrow> tally" where
  "analyze_games_loop [] u t = t"
| "analyze_games_loop (g # gs) u t = analyze_games_loop gs u (count_result (get_game_result g u) t)"

record game_stats =
  total_games :: int
  wins :: int
  losses :: int
  timeouts :: int
  win_rate :: real
  timeout_rate :: real

definition analyze_games :: "game list \<Rightarrow> string \<Rightarrow> game_stats" where
  "analyze_games games u =
     (let total = int (length games);
          t = analyze_games_loop games u \<lparr>t_wins = 0, t_losses = 0, t_timeouts = 0\<rparr>
      in \<lparr> total_games = total, wins = t_wins t, losses = t_losses t, timeouts = t_timeouts t,
           win_rate = (if total > 0 then real_of_int (t_wins t) / real_of_int total * 100 else 0),
           timeout_rate = (if total > 0 then real_of_int (t_timeouts t) / real_of_int total * 100 else 0) \<rparr>)"



text \<open>Truth value of a result that is \<^verbatim>\<open>None\<close> or a string.\<close>

definition truthy :: "string option \<Rightarrow> bool" where
  "truthy r = (case r of None \<Rightarrow> False | Some s \<Rightarrow> s \<noteq> [])"

section \<open>Streaks and sequences (archive/consecutive.py)\<close>

definition calculate_probability :: "int \<Rightarrow> int \<Rightarrow> real" where
  "calculate_probability numerator denominator =
     (if denominator \<noteq> 0 then real_of_int numerator / real_of_int denominator * 100 else 0)"

record streak_state =
  win_after_win_same_hour :: int
  loss_after_loss_same_hour :: int
  total_win_streaks_same_hour :: int
  total_loss_streaks_same_hour :: int
  previous_result :: "string option"
  previous_hour :: "nat option"

definition streak_init :: streak_state where
  "streak_init = \<lparr> win_after_win_same_hour = 0, loss_after_loss_same_hour = 0,
       total_win_streaks_same_hour = 0, total_loss_streaks_same_hour = 0,
       previous_result = None, previous_hour = None \<rparr>"

text \<open>The pair counting of one iteration of \<^verbatim>\<open>analyze_streaks\<close>, reached when the previous
  result is set and the hours agree.\<close>

definition streak_count :: "string option \<Rightarrow> streak_state \<Rightarrow> streak_state" where
  "streak_count current_result st =
     (if previous_result st = Some ''win'' then
        (let st1 = st\<lparr>total_win_streaks_same_hour := total_win_streaks_same_hour st + 1\<rparr>
         in if current_result = Some ''win''
            then st1\<lparr>win_after_win_same_hour := win_after_win_same_hour st1 + 1\<rparr> else st1)
      else if previous_result st = Some ''loss'' then
        (let st1 = st\<lparr>total_loss_streaks_same_hour := total_loss_streaks_same_hour st + 1\<rparr>
         in if current_result = Some ''loss''
            then st1\<lparr>loss_after_loss_same_hour := loss_after_loss_same_hour st1 + 1\<rparr> else st1)
      else st)"

definition streak_step :: "(int \<Rightarrow> local_time) \<Rightarrow> string \<Rightarrow> game \<Rightarrow> streak_state \<Rightarrow> streak_state" where
  "streak_step clock u g st =
     (case end_time g of
        None \<Rightarrow> st
      | Some t \<Rightarrow>
          if t = 0 then st
          else
            (let hour_of_day = lt_hour (clock t);
                 current_result = get_game_result_consecutive g u
             in if \<not> truthy current_result then st
                else
                  (let st1 = (if truthy (previous_result st) \<and> previous_hour st = Some hour_of_day
                              then streak_count current_result st else st)
                   in st1\<lparr>previous_result := current_result, previous_hour := Some hour_of_day\<rparr>)))"

fun streaks_loop :: "(int \<Rightarrow> local_time) \<Rightarrow> string \<Rightarrow> game list \<Rightarrow> streak_state \<Rightarrow> streak_state" where
  "streaks_loop clock u [] st = st"
| "streaks_loop clock u (g # gs) st = streaks_loop clock u gs (streak_step clock u g st)"

definition analyze_streaks :: "(int \<Rightarrow> local_time) \<Rightarrow> game list \<Rightarrow> string \<Rightarrow> real \<times> real" where
  "analyze_streaks clock games_sorted u =
     (let st = streaks_loop clock u games_sorted streak_init
      in (calculate_probability (win_after_win_same_hour st) (total_win_streaks_same_hour st),
          calculate_probability (loss_after_loss_same_hour st) (total_loss_streaks_same_hour st)))"

record sequence_state =
  win_after_win_loss_same_hour :: int
  win_after_loss_win_same_hour :: int
  total_win_loss_sequences_same_hour :: int
  total_loss_win_sequences_same_hour :: int
  seq_previous_result :: "string option"
  seq_previous_hour :: "nat option"

definition sequence_init :: sequence_state where
  "sequence_init = \<lparr> win_after_win_loss_same_hour = 0, win_after_loss_win_same_hour = 0,
       total_win_loss_sequences_same_hour = 0, total_loss_win_sequences_same_hour = 0,
       seq_previous_result = None, seq_previous_hour = None \<rparr>"

text \<open>\<^verbatim>\<open>get_game_result(games_sorted[i + 1], username) if i + 1 < len(games_sorted) else None\<close>\<close>

definition next_game_result :: "game list \<Rightarrow> nat \<Rightarrow> string \<Rightarrow> string option" where
  "next_game_result games_sorted i u =
     (if i + 1 < length games_sorted then get_game_result_consecutive (games_sorted ! (i + 1)) u
      else None)"

definition sequence_count :: "game list \<Rightarrow> nat \<Rightarrow> string \<Rightarrow> string option \<Rightarrow> sequence_state \<Rightarrow> sequence_state" where
  "sequence_count games_sorted i u current_result st =
     (if seq_previous_result st = Some ''win'' \<and> current_result = Some ''loss'' then
        (let st1 = st\<lparr>total_win_loss_sequences_same_hour := total_win_loss_sequences_same_hour st + 1\<rparr>
         in if next_game_result games_sorted i u = Some ''win''
            then st1\<lparr>win_after_win_loss_same_hour := win_after_win_loss_same_hour st1 + 1\<rparr> else st1)
      else if seq_previous_result st = Some ''loss'' \<and> current_result = Some ''win'' then
        (let st1 = st\<lparr>total_loss_win_sequences_same_hour := total_loss_win_sequences_same_hour st + 1\<rparr>
         in if next_game_result games_sorted i u = Some ''win''
            then st1\<lparr>win_after_loss_win_same_hour := win_after_loss_win_same_hour st1 + 1\<rparr> else st1)
      else st)"

definition sequence_step ::
  "(int \<Rightarrow> local_time) \<Rightarrow> string \<Rightarrow> game list \<Rightarrow> nat \<Rightarrow> game \<Rightarrow> sequence_state \<Rightarrow> sequence_state" where
  "sequence_step clock u games_sorted i g st =
     (case end_time g of
        None \<Rightarrow> st
      | Some t \<Rightarrow>
          if t = 0 then st
          else
            (let hour_of_day = lt_hour (clock t);
                 current_result = get_game_result_consecutive g u
             in if \<not> truthy current_result then st
                else
                  (let st1 = (if truthy (seq_previous_result st) \<and> seq_previous_hour st = Some hour_of_day
                              then sequence_count games_sorted i u current_result st else st)
                   in st1\<lparr>seq_previous_result := current_result, seq_previous_hour := Some hour_of_day\<rparr>)))"

text \<open>The loop over \<^verbatim>\<open>enumerate(games_sorted)\<close>: \<open>gs\<close> is the rest of the list from index \<open>i\<close>.\<close>

fun sequences_loop ::
  "(int \<Rightarrow> local_time) \<Rightarrow> string \<Rightarrow> game list \<Rightarrow> nat \<Rightarrow> game list \<Rightarrow> sequence_state \<Rightarrow> sequence_state" where
  "sequences_loop clock u games_sorted i [] st = st"
| "sequences_loop clock u games_sorted i (g # gs) st =
     sequences_loop clock u games_sorted (i + 1) gs (sequence_step clock u games_sorted i g st)"

definition analyze_sequences :: "(int \<Rightarrow> local_time) \<Rightarrow> game list \<Rightarrow> string \<Rightarrow> real \<times> real" where
  "analyze_sequences clock games_sorted u =
     (let st = sequences_loop clock u games_sorted 0 games_sorted sequence_init
      in (calculate_probability (win_after_win_loss_same_hour st) (total_win_loss_sequences_same_hour st),
          calculate_probability (win_after_loss_win_same_hour st) (total_loss_win_sequences_same_hour st)))"

section \<open>Bucket reports (game\_analysis.py)\<close>

text \<open>A dictionary that keeps insertion order is an association list with distinct keys.
  \<open>dict_update k f dflt d\<close> is \<^verbatim>\<open>d[k] = f(d[k])\<close> on a \<^verbatim>\<open>defaultdict\<close> whose factory
  gives \<open>dflt\<close>: a new key goes to the end.\<close>

fun dict_update :: "'k \<Rightarrow> ('v \<Rightarrow> 'v) \<Rightarrow> 'v \<Rightarrow> ('k \<times> 'v) list \<Rightarrow> ('k \<times> 'v) list" where
  "dict_update k f dflt [] = [(k, f dflt)]"
| "dict_update k f dflt ((k', v) # d) =
     (if k' = k then (k', f v) # d else (k', v) # dict_update k f dflt d)"

text \<open>\<^verbatim>\<open>round(x, 1)\<close>: to one decimal, a tie going to the even digit.\<close>

definition py_round1 :: "real \<Rightarrow> real" where
  "py_round1 x =
     (let y = x * 10; f = \<lfloor>y\<rfloor>; d = y - of_int f
      in (if d < 1/2 then of_int f
          else if 1/2 < d then of_int (f + 1)
          else if even f then of_int f else of_int (f + 1)) / 10)"

text \<open>\<^verbatim>\<open>sorted(games, key=lambda x: x.get('end_time', 0))\<close>: a stable sort.\<close>

definition end_time_key :: "game \<Rightarrow> int" where
  "end_time_key g = (case end_time g of None \<Rightarrow> 0 | Some t \<Rightarrow> t)"

definition sorted_games :: "game list \<Rightarrow> game list" where
  "sorted_games games = sort_key end_time_key games"

record bucket =
  b_games :: int
  b_wins :: int
  b_losses :: int
  b_timeouts :: int

definition bucket0 :: bucket where
  "bucket0 = \<lparr>b_games = 0, b_wins = 0, b_losses = 0, b_timeouts = 0\<rparr>"

text \<open>The body of \<^verbatim>\<open>if result:\<close> in \<^verbatim>\<open>generate_monthly_report\<close>.\<close>

definition monthly_count :: "string option \<Rightarrow> bucket \<Rightarrow> bucket" where
  "monthly_count r b =
     (let b1 = b\<lparr>b_games := b_games b + 1\<rparr>
      in if r = Some ''win'' then b1\<lparr>b_wins := b_wins b1 + 1\<rparr>
         else if r = Some ''timeout'' then b1\<lparr>b_timeouts := b_timeouts b1 + 1, b_losses := b_losses b1 + 1\<rparr>
         else if r = Some ''loss'' then b1\<lparr>b_losses := b_losses b1 + 1\<rparr>
         else b1)"

definition monthly_step ::
  "(int \<Rightarrow> local_time) \<Rightarrow> string \<Rightarrow> game \<Rightarrow> ((int \<times> nat) \<times> bucket) list \<Rightarrow> ((int \<times> nat) \<times> bucket) list" where
  "monthly_step clock u g d =
     (case end_time g of
        None \<Rightarrow> d
      | Some t \<Rightarrow>
          if t = 0 then d
          else
            (let month = month_key (clock t);
                 r = get_game_result g u
             in if truthy r then dict_update month (monthly_count r) bucket0 d else d))"

fun monthly_loop ::
  "(int \<Rightarrow> local_time) \<Rightarrow> string \<Rightarrow> game list \<Rightarrow> ((int \<times> nat) \<times> bucket) list \<Rightarrow> ((int \<times> nat) \<times> bucket) list" where
  "monthly_loop clock u [] d = d"
| "monthly_loop clock u (g # gs) d = monthly_loop clock u gs (monthly_step clock u g d)"

definition monthly_data :: "(int \<Rightarrow> local_time) \<Rightarrow> game list \<Rightarrow> string \<Rightarrow> ((int \<times> nat) \<times> bucket) list" where
  "monthly_data clock games u = monthly_loop clock u (sorted_games games) []"

record monthly_row =
  Month :: "int \<times> nat"
  Games_Played :: int
  Wins :: int
  Losses :: int
  Win_Rate_percent :: real
  Timeout_Rate_percent :: real

definition monthly_row_of :: "(int \<times> nat) \<times> bucket \<Rightarrow> monthly_row" where
  "monthly_row_of kb =
     (let month = fst kb; data = snd kb
      in \<lparr> Month = month, Games_Played = b_games data, Wins = b_wins data, Losses = b_losses data,
           Win_Rate_percent =
             (if b_games data \<noteq> 0
              then py_round1 (real_of_int (b_wins data) / real_of_int (b_games data) * 100) else 0),
           Timeout_Rate_percent =
             (if b_games data \<noteq> 0
              then py_round1 (real_of_int (b_timeouts data) / real_of_int (b_games data) * 100) else 0) \<rparr>)"

definition generate_monthly_report :: "(int \<Rightarrow> local_time) \<Rightarrow> game list \<Rightarrow> string \<Rightarrow> monthly_row list" where
  "generate_monthly_report clock games u = map monthly_row_of (monthly_data clock games u)"

text \<open>\<^verbatim>\<open>analyze_time_stats\<close>: the bucket of a (weekday, hour) pair is a \<^verbatim>\<open>defaultdict(int)\<close>,
  a counter for every string, 0 until touched. The key string joins the day name and the
  hour with a dash and is split again for the row, so the pair itself is the key here.\<close>

definition time_count :: "string option \<Rightarrow> (string \<Rightarrow> int) \<Rightarrow> (string \<Rightarrow> int)" where
  "time_count r stats =
     (let s1 = stats(''games_played'' := stats ''games_played'' + 1);
          k = (case r of None \<Rightarrow> ''None'' | Some x \<Rightarrow> x) @ ''s''
      in s1(k := s1 k + 1))"

definition time_step ::
  "(int \<Rightarrow> local_time) \<Rightarrow> string \<Rightarrow> game \<Rightarrow> ((weekday \<times> nat) \<times> (string \<Rightarrow> int)) list
     \<Rightarrow> ((weekday \<times> nat) \<times> (string \<Rightarrow> int)) list" where
  "time_step clock u g d =
     (case end_time g of
        None \<Rightarrow> d
      | Some t \<Rightarrow>
          if t = 0 then d
          else
            (let dt = clock t;
                 day_name = lt_weekday dt;
                 hour = lt_hour dt;
                 r = get_game_result g u
             in if truthy r then dict_update (day_name, hour) (time_count r) (\<lambda>_. 0) d else d))"

fun time_loop ::
  "(int \<Rightarrow> local_time) \<Rightarrow> string \<Rightarrow> game list \<Rightarrow> ((weekday \<times> nat) \<times> (string \<Rightarrow> int)) list
     \<Rightarrow> ((weekday \<times> nat) \<times> (string \<Rightarrow> int)) list" where
  "time_loop clock u [] d = d"
| "time_loop clock u (g # gs) d = time_loop clock u gs (time_step clock u g d)"

definition daily_data :: "(int \<Rightarrow> local_time) \<Rightarrow> game list \<Rightarrow> string \<Rightarrow> ((weekday \<times> nat) \<times> (string \<Rightarrow> int)) list" where
  "daily_data clock games u = time_loop clock u (sorted_games games) []"

datatype error = ZeroDivisionError | StatisticsError

record time_row =
  day_of_week :: weekday
  hour :: nat
  games_played :: int
  tr_wins :: int
  tr_losses :: int
  tr_timeouts :: int
  win_rate_percent :: real
  loss_rate_percent :: real
  timeout_rate_percent :: real

text \<open>The row of one bucket: the divisions have no guard.\<close>

definition time_row_of :: "(weekday \<times> nat) \<times> (string \<Rightarrow> int) \<Rightarrow> error + time_row" where
  "time_row_of ks =
     (let day = fst (fst ks); hr = snd (fst ks); stats = snd ks; n = stats ''games_played''
      in if n = 0 then Inl ZeroDivisionError
         else Inr \<lparr> day_of_week = day, hour = hr, games_played = n,
                tr_wins = stats ''wins'', tr_losses = stats ''losses'', tr_timeouts = stats ''timeouts'',
                win_rate_percent = py_round1 (real_of_int (stats ''wins'') / real_of_int n * 100),
                loss_rate_percent = py_round1 (real_of_int (stats ''losses'') / real_of_int n * 100),
                timeout_rate_percent = py_round1 (real_of_int (stats ''timeouts'') / real_of_int n * 100) \<rparr>)"

fun time_rows :: "((weekday \<times> nat) \<times> (string \<Rightarrow> int)) list \<Rightarrow> error + time_row list" where
  "time_rows [] = Inr []"
| "time_rows (ks # d) =
     (case time_row_of ks of
        Inl e \<Rightarrow> Inl e
      | Inr row \<Rightarrow> (case time_rows d of Inl e \<Rightarrow> Inl e | Inr rows \<Rightarrow> Inr (row # rows)))"

definition days_order :: "weekday list" where
  "days_order = [Monday, Tuesday, Wednesday, Thursday, Friday, Saturday, Sunday]"

text \<open>\<^verbatim>\<open>days_order.index(day)\<close>; every weekday is in the list.\<close>

fun index_in :: "'a list \<Rightarrow> 'a \<Rightarrow> nat" where
  "index_in [] x = 0"
| "index_in (y # ys) x = (if y = x then 0 else 1 + index_in ys x)"

definition analyze_time_stats :: "(int \<Rightarrow> local_time) \<Rightarrow> game list \<Rightarrow> string \<Rightarrow> error + time_row list" where
  "analyze_time_stats clock games u =
     (case time_rows (daily_data clock games u) of
        Inl e \<Rightarrow> Inl e
      | Inr rows \<Rightarrow> Inr (sort_key (\<lambda>x. (index_in days_order (day_of_week x), hour x)) rows))"

section \<open>Reports by month, weekday, hour and weekday-hour (archive/main.py)\<close>

text \<open>\<^verbatim>\<open>analyze_games\<close> of \<^verbatim>\<open>archive/main.py\<close> keeps, for each granularity, a dictionary of
  game counts and a dictionary of win, loss and timeout counts under the same keys; one
  bucket holds both here. The result is the raw string of \<open>get_game_result_raw\<close>.\<close>

definition archive_count :: "string \<Rightarrow> bucket \<Rightarrow> bucket" where
  "archive_count r b =
     (let b1 = b\<lparr>b_games := b_games b + 1\<rparr>
      in if r = ''win'' then b1\<lparr>b_wins := b_wins b1 + 1\<rparr>
         else if r \<in> set [''checkmated'', ''timeout'', ''resigned'', ''lose'', ''abandoned''] then
           (let b2 = b1\<lparr>b_losses := b_losses b1 + 1\<rparr>
            in if r = ''timeout'' then b2\<lparr>b_timeouts := b_timeouts b2 + 1\<rparr> else b2)
         else b1)"

record archive_data =
  per_month :: "((int \<times> nat) \<times> bucket) list"
  per_day :: "(weekday \<times> bucket) list"
  per_hour :: "(nat \<times> bucket) list"
  per_day_hour :: "((weekday \<times> nat) \<times> bucket) list"

definition archive_step :: "(int \<Rightarrow> local_time) \<Rightarrow> string \<Rightarrow> game \<Rightarrow> archive_data \<Rightarrow> archive_data" where
  "archive_step clock u g a =
     (case end_time g of
        None \<Rightarrow> a
      | Some t \<Rightarrow>
          if t = 0 then a
          else
            (let end_datetime = clock t;
                 month = month_key end_datetime;
                 day_of_week = lt_weekday end_datetime;
                 hour_of_day = lt_hour end_datetime;
                 day_hour = (day_of_week, hour_of_day)
             in case get_game_result_raw g u of
                  None \<Rightarrow> a
                | Some r \<Rightarrow>
                    if r = [] then a
                    else \<lparr> per_month = dict_update month (archive_count r) bucket0 (per_month a),
                           per_day = dict_update day_of_week (archive_count r) bucket0 (per_day a),
                           per_hour = dict_update hour_of_day (archive_count r) bucket0 (per_hour a),
                           per_day_hour = dict_update day_hour (archive_count r) bucket0 (per_day_hour a) \<rparr>))"

fun archive_loop :: "(int \<Rightarrow> local_time) \<Rightarrow> string \<Rightarrow> game list \<Rightarrow> archive_data \<Rightarrow> archive_data" where
  "archive_loop clock u [] a = a"
| "archive_loop clock u (g # gs) a = archive_loop clock u gs (archive_step clock u g a)"

definition archive_analyze_games :: "(int \<Rightarrow> local_time) \<Rightarrow> game list \<Rightarrow> string \<Rightarrow> archive_data" where
  "archive_analyze_games clock games u =
     archive_loop clock u games \<lparr>per_month = [], per_day = [], per_hour = [], per_day_hour = []\<rparr>"

definition calculate_rates :: "bucket \<Rightarrow> int \<Rightarrow> real \<times> real \<times> real" where
  "calculate_rates data total_played =
     ((if total_played \<noteq> 0 then py_round1 (real_of_int (b_wins data) / real_of_int total_played * 100) else 0),
      (if total_played \<noteq> 0 then py_round1 (real_of_int (b_losses data) / real_of_int total_played * 100) else 0),
      (if total_played \<noteq> 0 then py_round1 (real_of_int (b_timeouts data) / real_of_int total_played * 100) else 0))"

record 'k report_row =
  r_key :: 'k
  r_games_played :: int
  r_wins :: int
  r_losses :: int
  r_timeouts :: int
  r_win_rate :: real
  r_loss_rate :: real
  r_timeout_rate :: real

definition report_row_of :: "'k \<times> bucket \<Rightarrow> 'k report_row" where
  "report_row_of kb =
     (let total = b_games (snd kb); rates = calculate_rates (snd kb) total
      in \<lparr> r_key = fst kb, r_games_played = total, r_wins = b_wins (snd kb),
           r_losses = b_losses (snd kb), r_timeouts = b_timeouts (snd kb),
           r_win_rate = fst rates, r_loss_rate = fst (snd rates), r_timeout_rate = snd (snd rates) \<rparr>)"

definition generate_report :: "('k \<times> bucket) list \<Rightarrow> 'k report_row list" where
  "generate_report d = map report_row_of d"

section \<open>Games per day (archive/daily\_proba.py)\<close>

text \<open>\<^verbatim>\<open>statistics.median\<close>: no median for empty data.\<close>

definition median :: "int list \<Rightarrow> error + real" where
  "median data =
     (let xs = sort data; n = length xs
      in if n = 0 then Inl StatisticsError
         else if n mod 2 = 1 then Inr (real_of_int (xs ! (n div 2)))
         else Inr ((real_of_int (xs ! (n div 2 - 1)) + real_of_int (xs ! (n div 2))) / 2))"

fun days_loop ::
  "(int \<Rightarrow> local_time) \<Rightarrow> game list \<Rightarrow> (int \<times> nat \<times> nat) set \<times> ((int \<times> nat \<times> nat) \<times> int) list
     \<Rightarrow> (int \<times> nat \<times> nat) set \<times> ((int \<times> nat \<times> nat) \<times> int) list" where
  "days_loop clock [] acc = acc"
| "days_loop clock (g # gs) acc =
     days_loop clock gs
       (case end_time g of
          None \<Rightarrow> acc
        | Some t \<Rightarrow>
            if t = 0 then acc
            else (let end_date = date_key (clock t)
                  in (insert end_date (fst acc), dict_update end_date (\<lambda>c. c + 1) 0 (snd acc))))"

definition calculate_average_and_median_games :: "(int \<Rightarrow> local_time) \<Rightarrow> game list \<Rightarrow> error + real \<times> real" where
  "calculate_average_and_median_games clock games =
     (let acc = days_loop clock games ({}, []);
          unique_days = fst acc;
          games_per_day = snd acc;
          average_games = (if unique_days \<noteq> {}
                           then real (length games) / real (card unique_days) else 0)
      in case median (map snd games_per_day) of
           Inl e \<Rightarrow> Inl e
         | Inr median_games \<Rightarrow> Inr (average_games, median_games))"

section \<open>The listing of the dashboard (views.py)\<close>

text \<open>\<^verbatim>\<open>str.strip\<close> on ASCII white space.\<close>

definition is_space :: "char \<Rightarrow> bool" where
  "is_space c = (let n = (of_char c :: nat) in (9 \<le> n \<and> n \<le> 13) \<or> (28 \<le> n \<and> n \<le> 32))"

definition strip :: "string \<Rightarrow> string" where
  "strip s = rev (dropWhile is_space (rev (dropWhile is_space s)))"

text \<open>The colour \<^verbatim>\<open>process_game\<close> gives the player: \<open>None\<close> when no side matches and the
  key \<^verbatim>\<open>player_color\<close> is not set.\<close>

definition process_game_player_color :: "game \<Rightarrow> string \<Rightarrow> string option" where
  "process_game_player_color g u =
     (let white_username = strip (case side_get (white g) username of None \<Rightarrow> [] | Some n \<Rightarrow> n);
          black_username = strip (case side_get (black g) username of None \<Rightarrow> [] | Some n \<Rightarrow> n)
      in if lower white_username = lower u then Some ''white''
         else if lower black_username = lower u then Some ''black''
         else None)"

text \<open>A complete record, as the API returns it, for concrete runs.\<close>

definition mk_game :: "int \<Rightarrow> string \<Rightarrow> string \<Rightarrow> string \<Rightarrow> string \<Rightarrow> game" where
  "mk_game t wu wr bu br =
     \<lparr> end_time = Some t,
       white = Some \<lparr>username = Some wu, result = Some wr\<rparr>,
       black = Some \<lparr>username = Some bu, result = Some br\<rparr>,
       pgn = None, time_control = None, headers_White = None \<rparr>"

section \<open>Invariants of the buckets\<close>

text \<open>What every step of the bucket loops keeps: counts are not negative, wins and losses
  together do not exceed the games, and timeouts are among the losses.\<close>

definition bucket_ok :: "bucket \<Rightarrow> bool" where
  "bucket_ok b =
     (0 \<le> b_wins b \<and> 0 \<le> b_losses b \<and> 0 \<le> b_timeouts b
      \<and> b_wins b + b_losses b \<le> b_games b \<and> b_timeouts b \<le> b_losses b)"

text \<open>The counters of a (weekday, hour) bucket: at least one game; the key \<^verbatim>\<open>losses\<close> is
  never written, a loss being counted under the key the format string builds from it.\<close>

definition stats_ok :: "(string \<Rightarrow> int) \<Rightarrow> bool" where
  "stats_ok s =
     (1 \<le> s ''games_played'' \<and> 0 \<le> s ''wins'' \<and> 0 \<le> s ''timeouts'' \<and> s ''losses'' = 0
      \<and> s ''wins'' + s ''timeouts'' \<le> s ''games_played'')"

text \<open>A row of \<open>generate_report\<close> within the bounds of the specification.\<close>

definition report_row_ok :: "'k report_row \<Rightarrow> bool" where
  "report_row_ok row =
     (r_wins row + r_losses row \<le> r_games_played row
      \<and> 0 \<le> r_win_rate row \<and> r_win_rate row \<le> 100
      \<and> 0 \<le> r_loss_rate row \<and> r_loss_rate row \<le> 100
      \<and> 0 \<le> r_timeout_rate row \<and> r_timeout_rate row \<le> 100)"

section \<open>Regular expressions\<close>















section \<open>Strings and numbers\<close>










section \<open>Move timing of ChessGameAnalyzer (chess\_analyzer.py)\<close>











section \<open>Move timing of time\_mgmt.py\<close>




















section \<open>Properties of the tallies and bucket loops\<close>

lemma analyze_games_loop_wins:
  "t_wins (analyze_games_loop gs u t) =
     t_wins t + int (length (filter (\<lambda>g. get_game_result g u = Some ''win'') gs))"
  by (induction gs arbitrary: t) (simp_all add: count_result_def)

lemma analyze_games_loop_timeouts:
  "t_timeouts (analyze_games_loop gs u t) =
     t_timeouts t + int (length (filter (\<lambda>g. get_game_result g u = Some ''timeout'') gs))"
  by (induction gs arbitrary: t) (simp_all add: count_result_def)

lemma analyze_games_loop_losses:
  "t_losses (analyze_games_loop gs u t) =
     t_losses t + int (length (filter (\<lambda>g. get_game_result g u = Some ''timeout''
                                          \<or> get_game_result g u = Some ''loss'') gs))"
  by (induction gs arbitrary: t) (simp_all add: count_result_def)

lemma get_game_result_cases:
  "get_game_result g u = None \<or> get_game_result g u = Some ''win''
   \<or> get_game_result g u = Some ''timeout'' \<or> get_game_result g u = Some ''loss''"
  by (simp add: get_game_result_def Let_def)

lemma get_game_result_no_match:
  "side_get (white g) username \<noteq> Some u \<Longrightarrow> side_get (black g) username \<noteq> Some u
    \<Longrightarrow> get_game_result g u = None"
  by (simp add: get_game_result_def)

lemma monthly_step_skip: "get_game_result g u = None \<Longrightarrow> monthly_step clock u g d = d"
  by (simp add: monthly_step_def truthy_def Let_def split: option.splits)

lemma time_step_skip: "get_game_result g u = None \<Longrightarrow> time_step clock u g d = d"
  by (simp add: time_step_def truthy_def Let_def split: option.splits)

lemma monthly_loop_filter:
  "monthly_loop clock u gs d = monthly_loop clock u (filter (\<lambda>g. get_game_result g u \<noteq> None) gs) d"
  by (induction gs arbitrary: d) (simp_all add: monthly_step_skip)

lemma time_loop_filter:
  "time_loop clock u gs d = time_loop clock u (filter (\<lambda>g. get_game_result g u \<noteq> None) gs) d"
  by (induction gs arbitrary: d) (simp_all add: time_step_skip)

lemma monthly_data_filter:
  "monthly_data clock games u = monthly_data clock (filter (\<lambda>g. get_game_result g u \<noteq> None) games) u"
proof -
  have "monthly_data clock games u
      = monthly_loop clock u (filter (\<lambda>g. get_game_result g u \<noteq> None) (sorted_games games)) []"
    unfolding monthly_data_def by (rule monthly_loop_filter)
  also have "\<dots> = monthly_loop clock u (sorted_games (filter (\<lambda>g. get_game_result g u \<noteq> None) games)) []"
    by (simp add: sorted_games_def filter_sort)
  also have "\<dots> = monthly_data clock (filter (\<lambda>g. get_game_result g u \<noteq> None) games) u"
    unfolding monthly_data_def
    by (subst monthly_loop_filter) (simp add: sorted_games_def filter_sort)
  finally show ?thesis .
qed

lemma daily_data_filter:
  "daily_data clock games u = daily_data clock (filter (\<lambda>g. get_game_result g u \<noteq> None) games) u"
proof -
  have "daily_data clock games u
      = time_loop clock u (filter (\<lambda>g. get_game_result g u \<noteq> None) (sorted_games games)) []"
    unfolding daily_data_def by (rule time_loop_filter)
  also have "\<dots> = time_loop clock u (sorted_games (filter (\<lambda>g. get_game_result g u \<noteq> None) games)) []"
    by (simp add: sorted_games_def filter_sort)
  also have "\<dots> = daily_data clock (filter (\<lambda>g. get_game_result g u \<noteq> None) games) u"
    unfolding daily_data_def
    by (subst time_loop_filter) (simp add: sorted_games_def filter_sort)
  finally show ?thesis .
qed

lemma monthly_data_drop:
  assumes "get_game_result g u = None"
  shows "monthly_data clock (xs @ g # ys) u = monthly_data clock (xs @ ys) u"
  using assms
  by (subst monthly_data_filter, subst (2) monthly_data_filter) simp

lemma daily_data_drop:
  assumes "get_game_result g u = None"
  shows "daily_data clock (xs @ g # ys) u = daily_data clock (xs @ ys) u"
  using assms
  by (subst daily_data_filter, subst (2) daily_data_filter) simp

lemma analyze_games_fields:
  "wins (analyze_games games u) = int (length (filter (\<lambda>g. get_game_result g u = Some ''win'') games))"
  "timeouts (analyze_games games u) = int (length (filter (\<lambda>g. get_game_result g u = Some ''timeout'') games))"
  "losses (analyze_games games u) = int (length (filter (\<lambda>g. get_game_result g u = Some ''timeout''
                                          \<or> get_game_result g u = Some ''loss'') games))"
  "total_games (analyze_games games u) = int (length games)"
  by (simp_all add: analyze_games_def Let_def analyze_games_loop_wins analyze_games_loop_timeouts
        analyze_games_loop_losses)

lemma archive_step_skip: "get_game_result_raw g u = None \<Longrightarrow> archive_step clock u g a = a"
  by (simp add: archive_step_def Let_def split: option.splits)

lemma archive_loop_append:
  "archive_loop clock u (xs @ ys) a = archive_loop clock u ys (archive_loop clock u xs a)"
  by (induction xs arbitrary: a) simp_all

lemma get_game_result_raw_no_match:
  "side_get (white g) username \<noteq> Some u \<Longrightarrow> side_get (black g) username \<noteq> Some u
    \<Longrightarrow> get_game_result_raw g u = None"
  by (simp add: get_game_result_raw_def)

lemma archive_analyze_games_drop:
  assumes "get_game_result_raw g u = None \<or> get_game_result_raw g u = Some []"
  shows "archive_analyze_games clock (xs @ g # ys) u = archive_analyze_games clock (xs @ ys) u"
proof -
  have "archive_step clock u g a = a" for a
    using assms by (auto simp add: archive_step_def Let_def split: option.splits)
  then show ?thesis
    by (simp add: archive_analyze_games_def archive_loop_append)
qed

lemma streaks_loop_append:
  "streaks_loop clock u (xs @ ys) st = streaks_loop clock u ys (streaks_loop clock u xs st)"
  by (induction xs arbitrary: st) simp_all

lemma streak_step_skip:
  "get_game_result_consecutive g u = None \<Longrightarrow> streak_step clock u g st = st"
  by (simp add: streak_step_def truthy_def Let_def split: option.splits)

lemma sequence_step_skip:
  "get_game_result_consecutive g u = None \<Longrightarrow> sequence_step clock u games i g sq = sq"
  by (simp add: sequence_step_def truthy_def Let_def split: option.splits)


lemma utc_clock_examples:
  "utc_clock 1731232800 = \<lparr>lt_year = 2024, lt_month = 11, lt_day = 10, lt_weekday = Sunday, lt_hour = 10\<rparr>"
  "utc_clock 1731233400 = \<lparr>lt_year = 2024, lt_month = 11, lt_day = 10, lt_weekday = Sunday, lt_hour = 10\<rparr>"
  "utc_clock 1731234000 = \<lparr>lt_year = 2024, lt_month = 11, lt_day = 10, lt_weekday = Sunday, lt_hour = 10\<rparr>"
  "utc_clock 1731320000 = \<lparr>lt_year = 2024, lt_month = 11, lt_day = 11, lt_weekday = Monday, lt_hour = 10\<rparr>"
  by code_simp+

lemma lower_examples:
  "lower ''Kalel1130'' = ''kalel1130''" "lower ''kalel1130'' = ''kalel1130''" "lower ''opp'' = ''opp''"
  by code_simp+

lemma strip_examples:
  "strip ''Kalel1130'' = ''Kalel1130''" "strip ''opp'' = ''opp''"
  by code_simp+

lemma dict_update_inv:
  assumes "\<forall>kv\<in>set d. P (snd kv)" and "P (f dflt)" and "\<And>v. P v \<Longrightarrow> P (f v)"
  shows "\<forall>kv\<in>set (dict_update k f dflt d). P (snd kv)"
proof -
  have "(\<forall>kv\<in>set d. P (snd kv)) \<longrightarrow> (\<forall>kv\<in>set (dict_update k f dflt d). P (snd kv))"
  proof (induction d)
    case Nil
    show ?case
      using assms(2) by simp
  next
    case (Cons a d)
    obtain k' v where a: "a = (k', v)"
      by (cases a)
    show ?case
      using Cons.IH assms(3) [of v] by (simp add: a)
  qed
  with assms(1) show ?thesis
    by blast
qed

lemma py_round1_bounds:
  assumes "0 \<le> x" and "x \<le> 100"
  shows "0 \<le> py_round1 x \<and> py_round1 x \<le> 100"
proof -
  define y where "y = x * 10"
  define f where "f = \<lfloor>y\<rfloor>"
  define d where "d = y - of_int f"
  have y: "0 \<le> y" "y \<le> 1000"
    using assms by (simp_all add: y_def)
  have f0: "0 \<le> f"
    using y by (simp add: f_def)
  have fy: "real_of_int f \<le> y"
    by (simp add: f_def)
  have low: "0 \<le> real_of_int f / 10" "0 \<le> real_of_int (f + 1) / 10"
    using f0 by simp_all
  have a: "real_of_int f / 10 \<le> 100"
    using fy y by simp
  have b: "real_of_int (f + 1) / 10 \<le> 100" if "\<not> d < 1 / 2"
  proof -
    have "real_of_int f < y"
      using that by (simp add: d_def)
    then have "real_of_int f < 1000"
      using y by simp
    then have "f < 1000"
      by linarith
    then have "f + 1 \<le> 1000"
      by simp
    then have "real_of_int (f + 1) \<le> 1000"
      by linarith
    then show ?thesis
      by simp
  qed
  have eq: "py_round1 x =
      (if d < 1/2 then of_int f
       else if 1/2 < d then of_int (f + 1)
       else if even f then of_int f else of_int (f + 1)) / 10"
    by (simp add: py_round1_def Let_def y_def f_def d_def)
  show ?thesis
  proof (cases "d < 1 / 2")
    case True
    then show ?thesis
      using low a by (simp add: eq)
  next
    case False
    show ?thesis
      using low a b [OF False] False unfolding eq
      by (cases "1 / 2 < d"; cases "even f"; simp del: of_int_add)
  qed
qed

lemma rate_bounds:
  assumes "0 \<le> c" and "c \<le> n" and "n \<noteq> 0"
  shows "0 \<le> py_round1 (real_of_int c / real_of_int n * 100)
       \<and> py_round1 (real_of_int c / real_of_int n * 100) \<le> 100"
proof (rule py_round1_bounds)
  have n: "0 < real_of_int n"
    using assms by simp
  show "0 \<le> real_of_int c / real_of_int n * 100"
    using assms n by simp
  have "real_of_int c \<le> real_of_int n"
    using assms by simp
  then show "real_of_int c / real_of_int n * 100 \<le> 100"
    using n by (simp add: field_simps)
qed

lemma bucket_ok_monthly_count: "bucket_ok b \<Longrightarrow> bucket_ok (monthly_count r b)"
  by (simp add: bucket_ok_def monthly_count_def Let_def)

lemma bucket_ok_monthly_count0: "bucket_ok (monthly_count r bucket0)"
  by (simp add: bucket_ok_def monthly_count_def Let_def bucket0_def)

lemma bucket_ok_archive_count: "bucket_ok b \<Longrightarrow> bucket_ok (archive_count r b)"
  by (simp add: bucket_ok_def archive_count_def Let_def)

lemma bucket_ok_archive_count0: "bucket_ok (archive_count r bucket0)"
  by (simp add: bucket_ok_def archive_count_def Let_def bucket0_def)

lemma monthly_step_inv:
  assumes "\<forall>kv\<in>set d. bucket_ok (snd kv)"
  shows "\<forall>kv\<in>set (monthly_step clock u g d). bucket_ok (snd kv)"
proof -
  have upd: "\<forall>kv\<in>set (dict_update k (monthly_count r) bucket0 d). bucket_ok (snd kv)" for k r
    by (rule dict_update_inv [where P = bucket_ok and f = "monthly_count r", OF assms
          bucket_ok_monthly_count0 bucket_ok_monthly_count])
  show ?thesis
  proof (cases "end_time g")
    case None
    then show ?thesis
      using assms by (simp add: monthly_step_def)
  next
    case (Some t)
    then show ?thesis
      using assms upd by (simp add: monthly_step_def Let_def)
  qed
qed

lemma monthly_loop_inv:
  "\<forall>kv\<in>set d. bucket_ok (snd kv) \<Longrightarrow> \<forall>kv\<in>set (monthly_loop clock u gs d). bucket_ok (snd kv)"
proof (induction gs arbitrary: d)
  case Nil
  then show ?case by simp
next
  case (Cons g gs)
  show ?case
    unfolding monthly_loop.simps
    by (rule Cons.IH) (rule monthly_step_inv [OF Cons.prems])
qed

lemma monthly_data_inv: "\<forall>kv\<in>set (monthly_data clock games u). bucket_ok (snd kv)"
  unfolding monthly_data_def by (rule monthly_loop_inv) simp

lemma monthly_row_ok:
  assumes "bucket_ok (snd kb)"
  shows "Wins (monthly_row_of kb) + Losses (monthly_row_of kb) \<le> Games_Played (monthly_row_of kb)
       \<and> 0 \<le> Win_Rate_percent (monthly_row_of kb) \<and> Win_Rate_percent (monthly_row_of kb) \<le> 100
       \<and> 0 \<le> Timeout_Rate_percent (monthly_row_of kb)
       \<and> Timeout_Rate_percent (monthly_row_of kb) \<le> 100"
proof -
  let ?b = "snd kb"
  have w: "0 \<le> b_wins ?b" "b_wins ?b \<le> b_games ?b"
    and t: "0 \<le> b_timeouts ?b" "b_timeouts ?b \<le> b_games ?b"
    and s: "b_wins ?b + b_losses ?b \<le> b_games ?b"
    using assms by (simp_all add: bucket_ok_def)
  show ?thesis
    using s rate_bounds [OF w] rate_bounds [OF t]
    by (simp add: monthly_row_of_def Let_def)
qed

lemma stats_ok_time_count:
  assumes "r = Some ''win'' \<or> r = Some ''timeout'' \<or> r = Some ''loss''" and "stats_ok s"
  shows "stats_ok (time_count r s)"
  using assms by (auto simp add: stats_ok_def time_count_def Let_def)

lemma stats_ok_time_count0:
  assumes "r = Some ''win'' \<or> r = Some ''timeout'' \<or> r = Some ''loss''"
  shows "stats_ok (time_count r (\<lambda>_. 0))"
  using assms by (auto simp add: stats_ok_def time_count_def Let_def)

lemma time_step_inv:
  assumes "\<forall>ks\<in>set d. stats_ok (snd ks)"
  shows "\<forall>ks\<in>set (time_step clock u g d). stats_ok (snd ks)"
proof (cases "get_game_result g u")
  case None
  then show ?thesis
    using assms by (simp add: time_step_skip)
next
  case (Some x)
  then have r: "get_game_result g u = Some ''win'' \<or> get_game_result g u = Some ''timeout''
      \<or> get_game_result g u = Some ''loss''"
    using get_game_result_cases [of g u] by simp
  have upd: "\<forall>ks\<in>set (dict_update k (time_count (get_game_result g u)) (\<lambda>_. 0) d). stats_ok (snd ks)" for k
    by (rule dict_update_inv [where P = stats_ok and f = "time_count (get_game_result g u)", OF assms
          stats_ok_time_count0 [OF r] stats_ok_time_count [OF r]])
  show ?thesis
  proof (cases "end_time g")
    case None
    then show ?thesis
      using assms by (simp add: time_step_def)
  next
    case (Some t)
    then show ?thesis
      using assms upd by (simp add: time_step_def Let_def)
  qed
qed

lemma time_loop_inv:
  "\<forall>ks\<in>set d. stats_ok (snd ks) \<Longrightarrow> \<forall>ks\<in>set (time_loop clock u gs d). stats_ok (snd ks)"
proof (induction gs arbitrary: d)
  case Nil
  then show ?case by simp
next
  case (Cons g gs)
  show ?case
    unfolding time_loop.simps
    by (rule Cons.IH) (rule time_step_inv [OF Cons.prems])
qed

lemma daily_data_inv: "\<forall>ks\<in>set (daily_data clock games u). stats_ok (snd ks)"
  unfolding daily_data_def by (rule time_loop_inv) simp

lemma py_round1_zero: "py_round1 0 = 0"
  by (simp add: py_round1_def)

lemma time_row_of_ok:
  assumes "stats_ok (snd ks)"
  shows "\<exists>row. time_row_of ks = Inr row
       \<and> tr_wins row + tr_losses row \<le> games_played row
       \<and> 0 \<le> win_rate_percent row \<and> win_rate_percent row \<le> 100
       \<and> 0 \<le> loss_rate_percent row \<and> loss_rate_percent row \<le> 100
       \<and> 0 \<le> timeout_rate_percent row \<and> timeout_rate_percent row \<le> 100"
proof -
  let ?s = "snd ks"
  have n: "?s ''games_played'' \<noteq> 0"
    and w: "0 \<le> ?s ''wins''" "?s ''wins'' \<le> ?s ''games_played''"
    and t: "0 \<le> ?s ''timeouts''" "?s ''timeouts'' \<le> ?s ''games_played''"
    and l: "?s ''losses'' = 0"
    using assms by (simp_all add: stats_ok_def)
  show ?thesis
    using rate_bounds [OF w n] rate_bounds [OF t n] w l n
    by (simp add: time_row_of_def Let_def py_round1_zero)
qed

lemma time_rows_ok:
  assumes "\<forall>ks\<in>set d. stats_ok (snd ks)"
  shows "\<exists>rows. time_rows d = Inr rows
       \<and> (\<forall>row\<in>set rows.
            tr_wins row + tr_losses row \<le> games_played row
          \<and> 0 \<le> win_rate_percent row \<and> win_rate_percent row \<le> 100
          \<and> 0 \<le> loss_rate_percent row \<and> loss_rate_percent row \<le> 100
          \<and> 0 \<le> timeout_rate_percent row \<and> timeout_rate_percent row \<le> 100)"
  using assms
proof (induction d)
  case Nil
  then show ?case by simp
next
  case (Cons ks d)
  obtain row where row: "time_row_of ks = Inr row"
      "tr_wins row + tr_losses row \<le> games_played row
       \<and> 0 \<le> win_rate_percent row \<and> win_rate_percent row \<le> 100
       \<and> 0 \<le> loss_rate_percent row \<and> loss_rate_percent row \<le> 100
       \<and> 0 \<le> timeout_rate_percent row \<and> timeout_rate_percent row \<le> 100"
    using time_row_of_ok [of ks] Cons.prems by auto
  obtain rows where rows: "time_rows d = Inr rows"
      "\<forall>row\<in>set rows.
            tr_wins row + tr_losses row \<le> games_played row
          \<and> 0 \<le> win_rate_percent row \<and> win_rate_percent row \<le> 100
          \<and> 0 \<le> loss_rate_percent row \<and> loss_rate_percent row \<le> 100
          \<and> 0 \<le> timeout_rate_percent row \<and> timeout_rate_percent row \<le> 100"
    using Cons.IH Cons.prems by auto
  show ?case
    using row rows by simp
qed

lemma archive_step_inv:
  assumes "\<forall>kv\<in>set (per_month a). bucket_ok (snd kv)" and "\<forall>kv\<in>set (per_day a). bucket_ok (snd kv)"
    and "\<forall>kv\<in>set (per_hour a). bucket_ok (snd kv)" and "\<forall>kv\<in>set (per_day_hour a). bucket_ok (snd kv)"
  shows "(\<forall>kv\<in>set (per_month (archive_step clock u g a)). bucket_ok (snd kv))
       \<and> (\<forall>kv\<in>set (per_day (archive_step clock u g a)). bucket_ok (snd kv))
       \<and> (\<forall>kv\<in>set (per_hour (archive_step clock u g a)). bucket_ok (snd kv))
       \<and> (\<forall>kv\<in>set (per_day_hour (archive_step clock u g a)). bucket_ok (snd kv))"
proof -
  have m: "\<forall>kv\<in>set (dict_update k (archive_count r) bucket0 (per_month a)). bucket_ok (snd kv)" for k r
    by (rule dict_update_inv [where P = bucket_ok and f = "archive_count r", OF assms(1)
          bucket_ok_archive_count0 bucket_ok_archive_count])
  have d: "\<forall>kv\<in>set (dict_update k (archive_count r) bucket0 (per_day a)). bucket_ok (snd kv)" for k r
    by (rule dict_update_inv [where P = bucket_ok and f = "archive_count r", OF assms(2)
          bucket_ok_archive_count0 bucket_ok_archive_count])
  have h: "\<forall>kv\<in>set (dict_update k (archive_count r) bucket0 (per_hour a)). bucket_ok (snd kv)" for k r
    by (rule dict_update_inv [where P = bucket_ok and f = "archive_count r", OF assms(3)
          bucket_ok_archive_count0 bucket_ok_archive_count])
  have dh: "\<forall>kv\<in>set (dict_update k (archive_count r) bucket0 (per_day_hour a)). bucket_ok (snd kv)" for k r
    by (rule dict_update_inv [where P = bucket_ok and f = "archive_count r", OF assms(4)
          bucket_ok_archive_count0 bucket_ok_archive_count])
  show ?thesis
    using assms m d h dh
    by (simp add: archive_step_def Let_def split: option.splits)
qed

lemma archive_loop_inv:
  assumes "\<forall>kv\<in>set (per_month a). bucket_ok (snd kv)" and "\<forall>kv\<in>set (per_day a). bucket_ok (snd kv)"
    and "\<forall>kv\<in>set (per_hour a). bucket_ok (snd kv)" and "\<forall>kv\<in>set (per_day_hour a). bucket_ok (snd kv)"
  shows "(\<forall>kv\<in>set (per_month (archive_loop clock u gs a)). bucket_ok (snd kv))
       \<and> (\<forall>kv\<in>set (per_day (archive_loop clock u gs a)). bucket_ok (snd kv))
       \<and> (\<forall>kv\<in>set (per_hour (archive_loop clock u gs a)). bucket_ok (snd kv))
       \<and> (\<forall>kv\<in>set (per_day_hour (archive_loop clock u gs a)). bucket_ok (snd kv))"
  using assms
proof (induction gs arbitrary: a)
  case Nil
  then show ?case by simp
next
  case (Cons g gs)
  note step = archive_step_inv [OF Cons.prems, of clock u g]
  show ?case
    unfolding archive_loop.simps
    by (rule Cons.IH) (simp_all add: step)
qed

lemma report_row_of_ok:
  assumes "bucket_ok (snd kb)"
  shows "report_row_ok (report_row_of kb)"
proof (cases "b_games (snd kb) = 0")
  case True
  then show ?thesis
    using assms by (simp add: report_row_ok_def report_row_of_def calculate_rates_def Let_def bucket_ok_def)
next
  case n: False
  let ?b = "snd kb"
  have w: "0 \<le> b_wins ?b" "b_wins ?b \<le> b_games ?b"
    and l: "0 \<le> b_losses ?b" "b_losses ?b \<le> b_games ?b"
    and t: "0 \<le> b_timeouts ?b" "b_timeouts ?b \<le> b_games ?b"
    and s: "b_wins ?b + b_losses ?b \<le> b_games ?b"
    using assms by (simp_all add: bucket_ok_def)
  show ?thesis
    using s n rate_bounds [OF w n] rate_bounds [OF l n] rate_bounds [OF t n]
    by (simp add: report_row_ok_def report_row_of_def calculate_rates_def Let_def)
qed

lemma generate_report_ok:
  "\<forall>kv\<in>set d. bucket_ok (snd kv) \<Longrightarrow> \<forall>row\<in>set (generate_report d). report_row_ok row"
  by (simp add: generate_report_def report_row_of_ok)

lemma monthly_report_example:
  "generate_monthly_report utc_clock
     [mk_game 1731232800 ''Kalel1130'' ''win'' ''opp'' ''resigned'',
      mk_game 1731233400 ''opp'' ''win'' ''Kalel1130'' ''timeout'',
      mk_game 1731234000 ''Kalel1130'' ''checkmated'' ''opp'' ''win''] ''Kalel1130''
   = [\<lparr>Month = (2024, 11), Games_Played = 3, Wins = 1, Losses = 2,
       Win_Rate_percent = 333 / 10, Timeout_Rate_percent = 333 / 10\<rparr>]"
proof -
  let ?u = "''Kalel1130''"
  let ?g1 = "mk_game 1731232800 ''Kalel1130'' ''win'' ''opp'' ''resigned''"
  let ?g2 = "mk_game 1731233400 ''opp'' ''win'' ''Kalel1130'' ''timeout''"
  let ?g3 = "mk_game 1731234000 ''Kalel1130'' ''checkmated'' ''opp'' ''win''"
  have e: "end_time ?g1 = Some 1731232800" "end_time ?g2 = Some 1731233400"
    "end_time ?g3 = Some 1731234000"
    by (simp_all add: mk_game_def)
  have k: "end_time_key ?g1 = 1731232800" "end_time_key ?g2 = 1731233400"
    "end_time_key ?g3 = 1731234000"
    by (simp_all add: end_time_key_def e)
  have r: "get_game_result ?g1 ?u = Some ''win''" "get_game_result ?g2 ?u = Some ''timeout''"
    "get_game_result ?g3 ?u = Some ''loss''"
    by (simp_all add: get_game_result_def mk_game_def side_get_def)
  have s: "sorted_games [?g1, ?g2, ?g3] = [?g1, ?g2, ?g3]"
    by (simp add: sorted_games_def k)
  have d: "monthly_data utc_clock [?g1, ?g2, ?g3] ?u
      = [((2024, 11), \<lparr>b_games = 3, b_wins = 1, b_losses = 2, b_timeouts = 1\<rparr>)]"
    by (simp add: monthly_data_def s monthly_step_def e r truthy_def utc_clock_examples month_key_def
          monthly_count_def bucket0_def Let_def)
  show ?thesis
    by (simp add: generate_monthly_report_def d monthly_row_of_def py_round1_def Let_def)
qed








section \<open>The claims\<close>



text \<open>
  C2 (amended). A record whose white and black usernames both differ from the target adds
  nothing to the wins, losses and timeouts of \<open>analyze_games\<close>, and the bucket reports
  (\<open>generate_monthly_report\<close>, \<open>analyze_time_stats\<close>, the four granularities of archive/main.py)
  are the same with and without it. \<open>analyze_games\<close> still counts it in \<open>total_games\<close>,
  the length of the input and the denominator of its rates.
\<close>

theorem non_matching_record_excluded:
  assumes "side_get (white g) username \<noteq> Some u" and "side_get (black g) username \<noteq> Some u"
  shows "wins (analyze_games (xs @ g # ys) u) = wins (analyze_games (xs @ ys) u)
       \<and> losses (analyze_games (xs @ g # ys) u) = losses (analyze_games (xs @ ys) u)
       \<and> timeouts (analyze_games (xs @ g # ys) u) = timeouts (analyze_games (xs @ ys) u)
       \<and> generate_monthly_report clock (xs @ g # ys) u = generate_monthly_report clock (xs @ ys) u
       \<and> analyze_time_stats clock (xs @ g # ys) u = analyze_time_stats clock (xs @ ys) u
       \<and> archive_analyze_games clock (xs @ g # ys) u = archive_analyze_games clock (xs @ ys) u
       \<and> total_games (analyze_games (xs @ g # ys) u) = total_games (analyze_games (xs @ ys) u) + 1"
proof -
  have none: "get_game_result g u = None"
    using assms by (rule get_game_result_no_match)
  have raw: "get_game_result_raw g u = None"
    using assms by (rule get_game_result_raw_no_match)
  have "generate_monthly_report clock (xs @ g # ys) u = generate_monthly_report clock (xs @ ys) u"
    by (simp add: generate_monthly_report_def monthly_data_drop [OF none])
  moreover have "analyze_time_stats clock (xs @ g # ys) u = analyze_time_stats clock (xs @ ys) u"
    by (simp add: analyze_time_stats_def daily_data_drop [OF none])
  moreover have "archive_analyze_games clock (xs @ g # ys) u = archive_analyze_games clock (xs @ ys) u"
    using raw by (simp add: archive_analyze_games_drop)
  ultimately show ?thesis
    by (simp add: analyze_games_fields none)
qed

theorem non_matching_record_excluded_witness:
  "side_get (white (mk_game 1731232800 ''alice'' ''win'' ''bob'' ''resigned'')) username \<noteq> Some ''Kalel1130''
   \<and> side_get (black (mk_game 1731232800 ''alice'' ''win'' ''bob'' ''resigned'')) username \<noteq> Some ''Kalel1130''
   \<and> wins (analyze_games [mk_game 1731232800 ''alice'' ''win'' ''bob'' ''resigned''] ''Kalel1130'') = 0
   \<and> losses (analyze_games [mk_game 1731232800 ''alice'' ''win'' ''bob'' ''resigned''] ''Kalel1130'') = 0
   \<and> timeouts (analyze_games [mk_game 1731232800 ''alice'' ''win'' ''bob'' ''resigned''] ''Kalel1130'') = 0
   \<and> generate_monthly_report utc_clock [mk_game 1731232800 ''alice'' ''win'' ''bob'' ''resigned''] ''Kalel1130'' = []
   \<and> analyze_time_stats utc_clock [mk_game 1731232800 ''alice'' ''win'' ''bob'' ''resigned''] ''Kalel1130'' = Inr []
   \<and> total_games (analyze_games [mk_game 1731232800 ''alice'' ''win'' ''bob'' ''resigned''] ''Kalel1130'') = 1"
proof -
  let ?g = "mk_game 1731232800 ''alice'' ''win'' ''bob'' ''resigned''"
  have h1: "side_get (white ?g) username \<noteq> Some ''Kalel1130''"
    by (simp add: mk_game_def side_get_def)
  have h2: "side_get (black ?g) username \<noteq> Some ''Kalel1130''"
    by (simp add: mk_game_def side_get_def)
  have nil: "wins (analyze_games [] ''Kalel1130'') = 0" "losses (analyze_games [] ''Kalel1130'') = 0"
    "timeouts (analyze_games [] ''Kalel1130'') = 0" "total_games (analyze_games [] ''Kalel1130'') = 0"
    "generate_monthly_report utc_clock [] ''Kalel1130'' = []"
    "analyze_time_stats utc_clock [] ''Kalel1130'' = Inr []"
    by (simp_all add: analyze_games_def generate_monthly_report_def monthly_data_def sorted_games_def
          analyze_time_stats_def daily_data_def)
  show ?thesis
    using non_matching_record_excluded [OF h1 h2, of "[]" "[]" utc_clock] h1 h2 nil by simp
qed

text \<open>The claim as stated fails: a record of two other players is counted in \<open>total_games\<close>
  and lowers the win rate from 100 to 50.\<close>

theorem non_matching_record_counterexample:
  "side_get (white (mk_game 1731232800 ''alice'' ''win'' ''bob'' ''resigned'')) username \<noteq> Some ''Kalel1130''
   \<and> side_get (black (mk_game 1731232800 ''alice'' ''win'' ''bob'' ''resigned'')) username \<noteq> Some ''Kalel1130''
   \<and> total_games (analyze_games [mk_game 1731232800 ''alice'' ''win'' ''bob'' ''resigned''] ''Kalel1130'') = 1
   \<and> win_rate (analyze_games [mk_game 1731233400 ''Kalel1130'' ''win'' ''bob'' ''resigned''] ''Kalel1130'') = 100
   \<and> win_rate (analyze_games [mk_game 1731232800 ''alice'' ''win'' ''bob'' ''resigned'',
                               mk_game 1731233400 ''Kalel1130'' ''win'' ''bob'' ''resigned''] ''Kalel1130'') = 50"
  by (simp add: analyze_games_def mk_game_def side_get_def get_game_result_def count_result_def)




text \<open>
  C4. Three games that end in the same hour of the day, with normalized results win, win
  and loss for the target user, give two pairs whose previous result is a win (the
  denominator), one of them a win after a win (the numerator), and a win-after-win
  probability of 50 percent.
\<close>

theorem streak_three_games_win_win_loss:
  assumes "end_time g1 = Some t1" "end_time g2 = Some t2" "end_time g3 = Some t3"
    and "t1 \<noteq> 0" "t2 \<noteq> 0" "t3 \<noteq> 0" "t1 \<le> t2" "t2 \<le> t3"
    and "lt_hour (clock t1) = h" "lt_hour (clock t2) = h" "lt_hour (clock t3) = h"
    and "get_game_result_consecutive g1 u = Some ''win''"
    and "get_game_result_consecutive g2 u = Some ''win''"
    and "get_game_result_consecutive g3 u = Some ''loss''"
  shows "total_win_streaks_same_hour (streaks_loop clock u [g1, g2, g3] streak_init) = 2
       \<and> win_after_win_same_hour (streaks_loop clock u [g1, g2, g3] streak_init) = 1
       \<and> fst (analyze_streaks clock [g1, g2, g3] u) = 50"
  using assms
  by (simp add: analyze_streaks_def streak_step_def streak_count_def streak_init_def truthy_def
        calculate_probability_def Let_def)

theorem streak_three_games_win_win_loss_witness:
  "total_win_streaks_same_hour
     (streaks_loop utc_clock ''Kalel1130''
        [mk_game 1731232800 ''Kalel1130'' ''win'' ''opp'' ''resigned'',
         mk_game 1731233400 ''opp'' ''timeout'' ''Kalel1130'' ''win'',
         mk_game 1731234000 ''Kalel1130'' ''checkmated'' ''opp'' ''win''] streak_init) = 2
   \<and> win_after_win_same_hour
     (streaks_loop utc_clock ''Kalel1130''
        [mk_game 1731232800 ''Kalel1130'' ''win'' ''opp'' ''resigned'',
         mk_game 1731233400 ''opp'' ''timeout'' ''Kalel1130'' ''win'',
         mk_game 1731234000 ''Kalel1130'' ''checkmated'' ''opp'' ''win''] streak_init) = 1
   \<and> fst (analyze_streaks utc_clock
        [mk_game 1731232800 ''Kalel1130'' ''win'' ''opp'' ''resigned'',
         mk_game 1731233400 ''opp'' ''timeout'' ''Kalel1130'' ''win'',
         mk_game 1731234000 ''Kalel1130'' ''checkmated'' ''opp'' ''win''] ''Kalel1130'') = 50"
proof -
  let ?u = "''Kalel1130''"
  let ?g1 = "mk_game 1731232800 ''Kalel1130'' ''win'' ''opp'' ''resigned''"
  let ?g2 = "mk_game 1731233400 ''opp'' ''timeout'' ''Kalel1130'' ''win''"
  let ?g3 = "mk_game 1731234000 ''Kalel1130'' ''checkmated'' ''opp'' ''win''"
  have e: "end_time ?g1 = Some 1731232800" "end_time ?g2 = Some 1731233400"
    "end_time ?g3 = Some 1731234000"
    by (simp_all add: mk_game_def)
  have n: "(1731232800::int) \<noteq> 0" "(1731233400::int) \<noteq> 0" "(1731234000::int) \<noteq> 0"
    "(1731232800::int) \<le> 1731233400" "(1731233400::int) \<le> 1731234000"
    by simp_all
  have h: "lt_hour (utc_clock 1731232800) = 10" "lt_hour (utc_clock 1731233400) = 10"
    "lt_hour (utc_clock 1731234000) = 10"
    by code_simp+
  have r: "get_game_result_consecutive ?g1 ?u = Some ''win''"
    "get_game_result_consecutive ?g2 ?u = Some ''win''"
    "get_game_result_consecutive ?g3 ?u = Some ''loss''"
    by (simp_all add: get_game_result_consecutive_def mk_game_def side_get_def)
  show ?thesis
    by (rule streak_three_games_win_win_loss [OF e n h r])
qed



text \<open>
  C6 (amended). In the streak and sequence analyzers a record whose normalized result is
  unknown is skipped: the iteration leaves the counters and the remembered previous result
  and hour as they were. The record is never the previous or the current one of a pair,
  and the record after it is compared with the last record of known result before it:
  \<open>analyze_streaks\<close> gives the same result as on the input without the unknown record.
\<close>

theorem unknown_result_is_skipped:
  assumes "get_game_result_consecutive g u = None"
  shows "streak_step clock u g st = st
       \<and> sequence_step clock u games i g sq = sq
       \<and> streaks_loop clock u (xs @ g # ys) st = streaks_loop clock u (xs @ ys) st
       \<and> analyze_streaks clock (xs @ g # ys) u = analyze_streaks clock (xs @ ys) u"
  using assms
  by (simp add: streak_step_skip sequence_step_skip streaks_loop_append analyze_streaks_def)

theorem unknown_result_is_skipped_witness:
  "get_game_result_consecutive (mk_game 1731233400 ''Kalel1130'' ''stalemate'' ''opp'' ''stalemate'')
     ''Kalel1130'' = None
   \<and> streak_step utc_clock ''Kalel1130''
       (mk_game 1731233400 ''Kalel1130'' ''stalemate'' ''opp'' ''stalemate'') streak_init = streak_init
   \<and> sequence_step utc_clock ''Kalel1130'' [] 0
       (mk_game 1731233400 ''Kalel1130'' ''stalemate'' ''opp'' ''stalemate'') sequence_init = sequence_init
   \<and> analyze_streaks utc_clock
       [mk_game 1731232800 ''Kalel1130'' ''win'' ''opp'' ''resigned'',
        mk_game 1731233400 ''Kalel1130'' ''stalemate'' ''opp'' ''stalemate'',
        mk_game 1731234000 ''Kalel1130'' ''win'' ''opp'' ''resigned''] ''Kalel1130''
     = analyze_streaks utc_clock
       [mk_game 1731232800 ''Kalel1130'' ''win'' ''opp'' ''resigned'',
        mk_game 1731234000 ''Kalel1130'' ''win'' ''opp'' ''resigned''] ''Kalel1130''"
proof -
  let ?g = "mk_game 1731233400 ''Kalel1130'' ''stalemate'' ''opp'' ''stalemate''"
  let ?w = "mk_game 1731232800 ''Kalel1130'' ''win'' ''opp'' ''resigned''"
  have h: "get_game_result_consecutive ?g ''Kalel1130'' = None"
    by (simp add: get_game_result_consecutive_def mk_game_def side_get_def)
  show ?thesis
    using unknown_result_is_skipped [OF h, of utc_clock streak_init "[]" 0 sequence_init "[?w]"
        "[mk_game 1731234000 ''Kalel1130'' ''win'' ''opp'' ''resigned'']"] h
    by simp
qed

text \<open>The claim as stated fails: between two wins of the same hour, a record of unknown
  result does not break the chain; the second win is paired with the first.\<close>

theorem unknown_result_counterexample:
  "get_game_result_consecutive (mk_game 1731233400 ''Kalel1130'' ''stalemate'' ''opp'' ''stalemate'')
     ''Kalel1130'' = None
   \<and> total_win_streaks_same_hour
       (streaks_loop utc_clock ''Kalel1130''
          [mk_game 1731232800 ''Kalel1130'' ''win'' ''opp'' ''resigned'',
           mk_game 1731233400 ''Kalel1130'' ''stalemate'' ''opp'' ''stalemate'',
           mk_game 1731234000 ''Kalel1130'' ''win'' ''opp'' ''resigned''] streak_init) = 1
   \<and> win_after_win_same_hour
       (streaks_loop utc_clock ''Kalel1130''
          [mk_game 1731232800 ''Kalel1130'' ''win'' ''opp'' ''resigned'',
           mk_game 1731233400 ''Kalel1130'' ''stalemate'' ''opp'' ''stalemate'',
           mk_game 1731234000 ''Kalel1130'' ''win'' ''opp'' ''resigned''] streak_init) = 1
   \<and> analyze_streaks utc_clock
          [mk_game 1731232800 ''Kalel1130'' ''win'' ''opp'' ''resigned'',
           mk_game 1731233400 ''Kalel1130'' ''stalemate'' ''opp'' ''stalemate'',
           mk_game 1731234000 ''Kalel1130'' ''win'' ''opp'' ''resigned''] ''Kalel1130'' = (100, 0)"
proof -
  let ?u = "''Kalel1130''"
  let ?g1 = "mk_game 1731232800 ''Kalel1130'' ''win'' ''opp'' ''resigned''"
  let ?g2 = "mk_game 1731233400 ''Kalel1130'' ''stalemate'' ''opp'' ''stalemate''"
  let ?g3 = "mk_game 1731234000 ''Kalel1130'' ''win'' ''opp'' ''resigned''"
  have e: "end_time ?g1 = Some 1731232800" "end_time ?g2 = Some 1731233400"
    "end_time ?g3 = Some 1731234000"
    by (simp_all add: mk_game_def)
  have h: "lt_hour (utc_clock 1731232800) = 10" "lt_hour (utc_clock 1731234000) = 10"
    by code_simp+
  have r: "get_game_result_consecutive ?g1 ?u = Some ''win''"
    "get_game_result_consecutive ?g2 ?u = None"
    "get_game_result_consecutive ?g3 ?u = Some ''win''"
    by (simp_all add: get_game_result_consecutive_def mk_game_def side_get_def)
  show ?thesis
    by (simp add: analyze_streaks_def streak_step_def streak_count_def streak_init_def truthy_def
          calculate_probability_def Let_def e h r)
qed




text \<open>
  C8. In every row of every bucket report (by month in \<open>generate_monthly_report\<close>, by
  weekday and hour in \<open>analyze_time_stats\<close>, and by month, weekday, hour and weekday-hour
  in the reports of archive/main.py) wins plus losses do not exceed the games played and
  every rate lies between 0 and 100; \<open>analyze_time_stats\<close>, whose divisions have no guard,
  always returns its rows.
\<close>

theorem bucket_stats_invariant:
  "(\<forall>row\<in>set (generate_monthly_report clock games u).
      Wins row + Losses row \<le> Games_Played row
    \<and> 0 \<le> Win_Rate_percent row \<and> Win_Rate_percent row \<le> 100
    \<and> 0 \<le> Timeout_Rate_percent row \<and> Timeout_Rate_percent row \<le> 100)
   \<and> (\<exists>rows. analyze_time_stats clock games u = Inr rows
        \<and> (\<forall>row\<in>set rows.
              tr_wins row + tr_losses row \<le> games_played row
            \<and> 0 \<le> win_rate_percent row \<and> win_rate_percent row \<le> 100
            \<and> 0 \<le> loss_rate_percent row \<and> loss_rate_percent row \<le> 100
            \<and> 0 \<le> timeout_rate_percent row \<and> timeout_rate_percent row \<le> 100))
   \<and> (\<forall>row\<in>set (generate_report (per_month (archive_analyze_games clock games u))). report_row_ok row)
   \<and> (\<forall>row\<in>set (generate_report (per_day (archive_analyze_games clock games u))). report_row_ok row)
   \<and> (\<forall>row\<in>set (generate_report (per_hour (archive_analyze_games clock games u))). report_row_ok row)
   \<and> (\<forall>row\<in>set (generate_report (per_day_hour (archive_analyze_games clock games u))).
        report_row_ok row)"
proof -
  have monthly: "\<forall>row\<in>set (generate_monthly_report clock games u).
      Wins row + Losses row \<le> Games_Played row
    \<and> 0 \<le> Win_Rate_percent row \<and> Win_Rate_percent row \<le> 100
    \<and> 0 \<le> Timeout_Rate_percent row \<and> Timeout_Rate_percent row \<le> 100"
    unfolding generate_monthly_report_def
    using monthly_data_inv [of clock games u] monthly_row_ok by auto
  obtain rows where rows: "time_rows (daily_data clock games u) = Inr rows"
    "\<forall>row\<in>set rows.
              tr_wins row + tr_losses row \<le> games_played row
            \<and> 0 \<le> win_rate_percent row \<and> win_rate_percent row \<le> 100
            \<and> 0 \<le> loss_rate_percent row \<and> loss_rate_percent row \<le> 100
            \<and> 0 \<le> timeout_rate_percent row \<and> timeout_rate_percent row \<le> 100"
    using time_rows_ok [OF daily_data_inv, of clock games u] by blast
  have time: "\<exists>rows. analyze_time_stats clock games u = Inr rows
        \<and> (\<forall>row\<in>set rows.
              tr_wins row + tr_losses row \<le> games_played row
            \<and> 0 \<le> win_rate_percent row \<and> win_rate_percent row \<le> 100
            \<and> 0 \<le> loss_rate_percent row \<and> loss_rate_percent row \<le> 100
            \<and> 0 \<le> timeout_rate_percent row \<and> timeout_rate_percent row \<le> 100)"
    using rows by (simp add: analyze_time_stats_def)
  have inv: "(\<forall>kv\<in>set (per_month (archive_analyze_games clock games u)). bucket_ok (snd kv))
       \<and> (\<forall>kv\<in>set (per_day (archive_analyze_games clock games u)). bucket_ok (snd kv))
       \<and> (\<forall>kv\<in>set (per_hour (archive_analyze_games clock games u)). bucket_ok (snd kv))
       \<and> (\<forall>kv\<in>set (per_day_hour (archive_analyze_games clock games u)). bucket_ok (snd kv))"
    unfolding archive_analyze_games_def by (rule archive_loop_inv) simp_all
  have m: "\<forall>row\<in>set (generate_report (per_month (archive_analyze_games clock games u))).
      report_row_ok row"
    by (rule generate_report_ok) (simp add: inv)
  have d: "\<forall>row\<in>set (generate_report (per_day (archive_analyze_games clock games u))).
      report_row_ok row"
    by (rule generate_report_ok) (simp add: inv)
  have h: "\<forall>row\<in>set (generate_report (per_hour (archive_analyze_games clock games u))).
      report_row_ok row"
    by (rule generate_report_ok) (simp add: inv)
  have dh: "\<forall>row\<in>set (generate_report (per_day_hour (archive_analyze_games clock games u))).
      report_row_ok row"
    by (rule generate_report_ok) (simp add: inv)
  from monthly time m d h dh show ?thesis
    by (intro conjI)
qed

theorem bucket_stats_invariant_witness:
  "generate_monthly_report utc_clock
     [mk_game 1731232800 ''Kalel1130'' ''win'' ''opp'' ''resigned'',
      mk_game 1731233400 ''opp'' ''win'' ''Kalel1130'' ''timeout'',
      mk_game 1731234000 ''Kalel1130'' ''checkmated'' ''opp'' ''win''] ''Kalel1130''
   = [\<lparr>Month = (2024, 11), Games_Played = 3, Wins = 1, Losses = 2,
       Win_Rate_percent = 333 / 10, Timeout_Rate_percent = 333 / 10\<rparr>]
   \<and> (1::int) + 2 \<le> 3 \<and> (0::real) \<le> 333 / 10 \<and> (333::real) / 10 \<le> 100"
  using bucket_stats_invariant [of utc_clock
     "[mk_game 1731232800 ''Kalel1130'' ''win'' ''opp'' ''resigned'',
       mk_game 1731233400 ''opp'' ''win'' ''Kalel1130'' ''timeout'',
       mk_game 1731234000 ''Kalel1130'' ''checkmated'' ''opp'' ''win'']" "''Kalel1130''"]
  by (simp add: monthly_report_example)

text \<open>
  C9. The claim asks for a match of the username up to letter case. \<open>get_game_result\<close>
  compares with equality: for the user \<^verbatim>\<open>kalel1130\<close> a win of \<^verbatim>\<open>Kalel1130\<close> is not
  classified and not counted, while the listing of the same request (\<open>process_game\<close>) and
  \<open>get_player_result\<close> match it in lower case.
\<close>

theorem get_game_result_case_sensitive:
  "get_game_result (mk_game 1731232800 ''Kalel1130'' ''win'' ''opp'' ''resigned'') ''kalel1130'' = None
   \<and> wins (analyze_games [mk_game 1731232800 ''Kalel1130'' ''win'' ''opp'' ''resigned''] ''kalel1130'') = 0
   \<and> get_game_result (mk_game 1731232800 ''Kalel1130'' ''win'' ''opp'' ''resigned'') ''Kalel1130''
       = Some ''win''
   \<and> process_game_player_color (mk_game 1731232800 ''Kalel1130'' ''win'' ''opp'' ''resigned'')
       ''kalel1130'' = Some ''white''
   \<and> get_player_result (mk_game 1731232800 ''Kalel1130'' ''win'' ''opp'' ''resigned'') = ''win''"
  by (simp add: get_game_result_def mk_game_def side_get_def analyze_games_def count_result_def
        process_game_player_color_def strip_examples lower_examples get_player_result_def)

text \<open>
  C10. The claim asks, for an empty input, for zero rows and a summary of zeros without an
  exception. The statistics, the reports and the four probabilities are so, and the
  average of games per day is 0; the median of games per day is taken of an empty list
  and raises \<^verbatim>\<open>StatisticsError\<close>.
\<close>

theorem empty_input_median_raises:
  "calculate_average_and_median_games clock [] = Inl StatisticsError
   \<and> analyze_games [] u = \<lparr>total_games = 0, wins = 0, losses = 0, timeouts = 0,
                           win_rate = 0, timeout_rate = 0\<rparr>
   \<and> generate_monthly_report clock [] u = []
   \<and> analyze_time_stats clock [] u = Inr []
   \<and> analyze_streaks clock [] u = (0, 0)
   \<and> analyze_sequences clock [] u = (0, 0)"
  by (simp add: calculate_average_and_median_games_def median_def analyze_games_def
        generate_monthly_report_def monthly_data_def analyze_time_stats_def daily_data_def
        sorted_games_def analyze_streaks_def analyze_sequences_def streak_init_def sequence_init_def
        calculate_probability_def)

end
